theory Spec2Isabelle
  imports Main
begin

section \<open>The persisted schema (schema.sql)\<close>

text \<open>
  Each table is the list of its rows in insertion order. The primary key of a table is
  enforced by the operations below, as SQLite enforces it on the statements of db.ts.
  Timestamps, modification times and byte offsets are the integers that db.ts binds to
  INTEGER columns; a TEXT column that the schema leaves nullable is an option.
\<close>

record session_row =
  s_id :: string
  s_project_path :: string
  s_git_branch :: "string option"
  s_cwd :: "string option"
  s_first_timestamp :: int
  s_last_timestamp :: int
  s_summary :: "string option"

record message_row =
  m_uuid :: string
  m_session_id :: string
  m_parent_uuid :: "string option"
  m_type :: string
  m_model :: "string option"
  m_content_text :: "string option"
  m_content_json :: "string option"
  m_thinking :: "string option"
  m_timestamp :: int
  m_input_tokens :: int
  m_output_tokens :: int
  m_cache_read_tokens :: int
  m_cache_creation_tokens :: int

record sync_state_row =
  ss_file_path :: string
  ss_last_modified :: int
  ss_last_byte_offset :: int

text \<open>
  The tables of the secondary entities are not in the schema.sql of this snapshot; their
  columns are the fields that sync passes to \<open>insert_tool_call\<close> and
  \<open>insert_tool_result\<close>.
\<close>

record tool_call_row =
  tc_id :: string
  tc_message_uuid :: string
  tc_session_id :: string
  tc_tool_name :: string
  tc_tool_input :: string
  tc_timestamp :: int

record tool_result_row =
  tr_tool_call_id :: string
  tr_message_uuid :: string
  tr_session_id :: string
  tr_content :: string
  tr_is_error :: bool
  tr_timestamp :: int

record tables =
  sessions :: "session_row list"
  messages :: "message_row list"
  tool_calls :: "tool_call_row list"
  tool_results :: "tool_result_row list"
  sync_state :: "sync_state_row list"

text \<open>
  A connection: the tables as the connection sees them, the tables as they were when the
  open transaction began (\<open>None\<close> outside a transaction, where every statement
  commits by itself), and the connection's foreign-key switch, which the constructor of
  \<open>Database\<close> turns on.
\<close>

record database =
  current :: tables
  snapshot :: "tables option"
  foreign_keys :: bool


datatype db_error = ForeignKeyViolation | TransactionError | ReadFailure | IntegerOverflow

section \<open>Database (db.ts)\<close>

subsection \<open>upsert\_session\<close>

record session_arg =
  arg_id :: string
  arg_project_path :: string
  arg_git_branch :: "string option"
  arg_cwd :: "string option"
  arg_timestamp :: int
  arg_summary :: "string option"

definition get_session :: "string \<Rightarrow> database \<Rightarrow> session_row option" where
  "get_session k db = find (\<lambda>r. s_id r = k) (sessions (current db))"

text \<open>\<open>COALESCE(excluded.summary, summary)\<close>: the first argument unless it is NULL.\<close>

definition coalesce :: "'a option \<Rightarrow> 'a option \<Rightarrow> 'a option" where
  "coalesce x y = (case x of None \<Rightarrow> y | Some v \<Rightarrow> Some v)"

text \<open>The \<open>DO UPDATE SET\<close> clause, applied to the row in conflict.\<close>

definition on_conflict_update :: "session_arg \<Rightarrow> session_row \<Rightarrow> session_row" where
  "on_conflict_update a r =
     r\<lparr>s_last_timestamp := max (s_last_timestamp r) (arg_timestamp a),
       s_summary := coalesce (arg_summary a) (s_summary r)\<rparr>"

definition excluded_row :: "session_arg \<Rightarrow> session_row" where
  "excluded_row a =
     \<lparr>s_id = arg_id a, s_project_path = arg_project_path a,
      s_git_branch = arg_git_branch a, s_cwd = arg_cwd a,
      s_first_timestamp = arg_timestamp a, s_last_timestamp = arg_timestamp a,
      s_summary = arg_summary a\<rparr>"

definition upsert_rows :: "session_arg \<Rightarrow> session_row list \<Rightarrow> session_row list" where
  "upsert_rows a rows =
     (if \<exists>r \<in> set rows. s_id r = arg_id a
      then map (\<lambda>r. if s_id r = arg_id a then on_conflict_update a r else r) rows
      else rows @ [excluded_row a])"

definition upsert_session :: "session_arg \<Rightarrow> database \<Rightarrow> database" where
  "upsert_session a db =
     db\<lparr>current := (current db)\<lparr>sessions := upsert_rows a (sessions (current db))\<rparr>\<rparr>"

subsection \<open>insert\_message\<close>

text \<open>
  The parameter of \<open>insert_message\<close>. TypeScript types are structural: sync passes
  the parser's message, which has more fields, so the operations take any extension of
  this record.
\<close>

record message =
  uuid :: string
  session_id :: string
  parent_uuid :: "string option"
  msg_type :: string
  model :: "string option"
  content_text :: "string option"
  content_json :: "string option"
  thinking :: "string option"
  timestamp :: int
  input_tokens :: "int option"
  output_tokens :: "int option"
  cache_read_tokens :: "int option"
  cache_creation_tokens :: "int option"

text \<open>The bound \<open>VALUES\<close>: \<open>?? null\<close> keeps the option, \<open>?? 0\<close> defaults a counter.\<close>

definition or_zero :: "int option \<Rightarrow> int" where
  "or_zero x = (case x of None \<Rightarrow> 0 | Some v \<Rightarrow> v)"

definition message_values :: "'a message_scheme \<Rightarrow> message_row" where
  "message_values msg =
     \<lparr>m_uuid = uuid msg, m_session_id = session_id msg, m_parent_uuid = parent_uuid msg,
      m_type = msg_type msg, m_model = model msg, m_content_text = content_text msg,
      m_content_json = content_json msg, m_thinking = thinking msg,
      m_timestamp = timestamp msg,
      m_input_tokens = or_zero (input_tokens msg),
      m_output_tokens = or_zero (output_tokens msg),
      m_cache_read_tokens = or_zero (cache_read_tokens msg),
      m_cache_creation_tokens = or_zero (cache_creation_tokens msg)\<rparr>"

text \<open>
  \<open>INSERT OR IGNORE\<close>: a row whose primary key is taken is skipped before anything
  else is checked. \<open>OR IGNORE\<close> does not cover the foreign key on
  \<open>session_id\<close>: with the switch on, a new row without its session makes the
  statement fail and changes nothing.
\<close>

definition insert_message :: "'a message_scheme \<Rightarrow> database \<Rightarrow> db_error + database" where
  "insert_message msg db =
     (if \<exists>r \<in> set (messages (current db)). m_uuid r = uuid msg then Inr db
      else if foreign_keys db \<and> \<not> (\<exists>s \<in> set (sessions (current db)). s_id s = session_id msg)
      then Inl ForeignKeyViolation
      else Inr (db\<lparr>current := (current db)\<lparr>messages :=
                  messages (current db) @ [message_values msg]\<rparr>\<rparr>))"

subsection \<open>get\_sync\_state, set\_sync\_state\<close>

definition get_sync_state :: "string \<Rightarrow> database \<Rightarrow> sync_state_row option" where
  "get_sync_state fp db = find (\<lambda>r. ss_file_path r = fp) (sync_state (current db))"

definition set_cursor_rows :: "string \<Rightarrow> int \<Rightarrow> int \<Rightarrow> sync_state_row list \<Rightarrow> sync_state_row list" where
  "set_cursor_rows fp lm off rows =
     (if \<exists>r \<in> set rows. ss_file_path r = fp
      then map (\<lambda>r. if ss_file_path r = fp
                     then r\<lparr>ss_last_modified := lm, ss_last_byte_offset := off\<rparr> else r) rows
      else rows @ [\<lparr>ss_file_path = fp, ss_last_modified = lm, ss_last_byte_offset = off\<rparr>])"

definition set_sync_state :: "string \<Rightarrow> int \<Rightarrow> int \<Rightarrow> database \<Rightarrow> database" where
  "set_sync_state fp lm off db =
     db\<lparr>current := (current db)\<lparr>sync_state :=
           set_cursor_rows fp lm off (sync_state (current db))\<rparr>\<rparr>"

subsection \<open>get\_stats\<close>

text \<open>
  \<open>SUM\<close> over an INTEGER column adds the rows in their order as 64-bit integers. Over
  no rows it is NULL; when a partial sum leaves the 64-bit range the statement fails
  with "integer overflow".
\<close>

definition int64 :: "int \<Rightarrow> bool" where
  "int64 x = (- 9223372036854775808 \<le> x \<and> x \<le> 9223372036854775807)"

fun sum_rows :: "int list \<Rightarrow> int \<Rightarrow> db_error + int" where
  "sum_rows [] acc = Inr acc"
| "sum_rows (x # xs) acc =
     (if int64 (acc + x) then sum_rows xs (acc + x) else Inl IntegerOverflow)"

definition sql_sum :: "int list \<Rightarrow> db_error + int option" where
  "sql_sum xs =
     (if xs = [] then Inr None
      else case sum_rows xs 0 of Inl e \<Rightarrow> Inl e | Inr v \<Rightarrow> Inr (Some v))"

text \<open>
  The object \<open>tokens\<close>; its fields \<open>input\<close>, \<open>output\<close>, \<open>cache_read\<close> and
  \<open>cache_creation\<close> are the \<open>sum_\<close> fields here.
\<close>

record token_sums =
  sum_input :: "int option"
  sum_output :: "int option"
  sum_cache_read :: "int option"
  sum_cache_creation :: "int option"

text \<open>The object that \<open>get_stats\<close> returns: \<open>sessions\<close>, \<open>messages\<close>, \<open>tokens\<close>.\<close>

record stats =
  stat_sessions :: nat
  stat_messages :: nat
  stat_tokens :: token_sums

definition get_stats :: "database \<Rightarrow> db_error + stats" where
  "get_stats db =
     (case sql_sum (map m_input_tokens (messages (current db))) of
        Inl e \<Rightarrow> Inl e
      | Inr i \<Rightarrow>
     (case sql_sum (map m_output_tokens (messages (current db))) of
        Inl e \<Rightarrow> Inl e
      | Inr ou \<Rightarrow>
     (case sql_sum (map m_cache_read_tokens (messages (current db))) of
        Inl e \<Rightarrow> Inl e
      | Inr cr \<Rightarrow>
     (case sql_sum (map m_cache_creation_tokens (messages (current db))) of
        Inl e \<Rightarrow> Inl e
      | Inr cc \<Rightarrow>
          Inr \<lparr>stat_sessions = length (sessions (current db)),
               stat_messages = length (messages (current db)),
               stat_tokens = \<lparr>sum_input = i, sum_output = ou, sum_cache_read = cr,
                              sum_cache_creation = cc\<rparr>\<rparr>))))"

subsection \<open>Methods that sync calls and this snapshot's db.ts does not have\<close>

text \<open>
  Modelled from the spec: \<open>reset_sync_state\<close>, missing from db.ts.
  "Clear every stored sync cursor (force full re-scan) without deleting any existing row."
\<close>

definition reset_sync_state :: "database \<Rightarrow> database" where
  "reset_sync_state db = db\<lparr>current := (current db)\<lparr>sync_state := []\<rparr>\<rparr>"

text \<open>
  Modelled from the spec: \<open>disable_foreign_keys\<close>, missing from db.ts.
  "Referential-integrity checks suspended for the duration".
\<close>

definition disable_foreign_keys :: "database \<Rightarrow> database" where
  "disable_foreign_keys db = db\<lparr>foreign_keys := False\<rparr>"

text \<open>
  Modelled from the spec: \<open>enable_foreign_keys\<close>, missing from db.ts.
  "(Re-enabled at the end)".
\<close>

definition enable_foreign_keys :: "database \<Rightarrow> database" where
  "enable_foreign_keys db = db\<lparr>foreign_keys := True\<rparr>"

text \<open>
  Modelled from the spec: \<open>begin\<close> (here \<open>begin_transaction\<close>), missing from
  db.ts. "Whole run is wrapped in a single transaction". Beginning inside a transaction
  is an error of the store.
\<close>

definition begin_transaction :: "database \<Rightarrow> db_error + database" where
  "begin_transaction db = (case snapshot db of
                 None \<Rightarrow> Inr (db\<lparr>snapshot := Some (current db)\<rparr>)
               | Some t \<Rightarrow> Inl TransactionError)"

text \<open>
  Modelled from the spec: \<open>commit\<close>, missing from db.ts. "Nothing is durable until
  the single commit at the end". Committing outside a transaction is an error of the
  store.
\<close>

definition commit :: "database \<Rightarrow> db_error + database" where
  "commit db = (case snapshot db of
                  None \<Rightarrow> Inl TransactionError
                | Some t \<Rightarrow> Inr (db\<lparr>snapshot := None\<rparr>))"

text \<open>
  Modelled from the spec: \<open>insert_tool_call\<close>, missing from db.ts.
  "Secondary-entity inserts: insert-or-ignore keyed by unique identifier -- duplicate
  identifier is a deliberate no-op, not an error." The identifier of a tool call is its
  \<open>id\<close>.
\<close>

definition insert_tool_call :: "tool_call_row \<Rightarrow> database \<Rightarrow> database" where
  "insert_tool_call row db =
     (if \<exists>r \<in> set (tool_calls (current db)). tc_id r = tc_id row then db
      else db\<lparr>current := (current db)\<lparr>tool_calls := tool_calls (current db) @ [row]\<rparr>\<rparr>)"

text \<open>
  Modelled from the spec: \<open>insert_tool_result\<close>, missing from db.ts, under the same
  sentence. The only identifier that sync passes for a tool result is its
  \<open>tool_call_id\<close>.
\<close>

definition insert_tool_result :: "tool_result_row \<Rightarrow> database \<Rightarrow> database" where
  "insert_tool_result row db =
     (if \<exists>r \<in> set (tool_results (current db)). tr_tool_call_id r = tr_tool_call_id row then db
      else db\<lparr>current := (current db)\<lparr>tool_results := tool_results (current db) @ [row]\<rparr>\<rparr>)"

text \<open>The value of \<open>get_messages_around\<close>, as db.test.ts reads it.\<close>

record context_window =
  before :: "message_row list"
  after :: "message_row list"

text \<open>The messages of a session ("scoped to that session only").\<close>

definition session_messages :: "string \<Rightarrow> database \<Rightarrow> message_row list" where
  "session_messages sid db = filter (\<lambda>r. m_session_id r = sid) (messages (current db))"

text \<open>
  Modelled from the spec: \<open>get_messages_around\<close>, missing from db.ts (db.test.ts
  calls it). "Given a session id, an anchor timestamp, and a window size N, returns up to
  N messages strictly before and up to N strictly after the anchor, each sub-list
  chronologically ordered, scoped to that session only." Of the messages on a side, the
  N nearest to the anchor are taken, as a context window around the anchor needs.
\<close>

definition get_messages_around :: "string \<Rightarrow> int \<Rightarrow> nat \<Rightarrow> database \<Rightarrow> context_window" where
  "get_messages_around sid anchor n db =
     \<lparr>before = rev (take n (rev (sort_key m_timestamp
                  (filter (\<lambda>r. m_timestamp r < anchor) (session_messages sid db))))),
      after = take n (sort_key m_timestamp
                  (filter (\<lambda>r. anchor < m_timestamp r) (session_messages sid db)))\<rparr>"

section \<open>The sync engine (sync.ts)\<close>

subsection \<open>What sync reads from outside\<close>

text \<open>
  The parser (parser.ts) is not in this snapshot. Its message carries the fields of
  \<open>insert_message\<close>'s parameter and those that sync reads besides.
\<close>

record tool_call =
  call_id :: string
  tool_name :: string
  tool_input :: string

record tool_result =
  tool_call_id :: string
  content :: string
  is_error :: bool

record parsed_message = message +
  git_branch :: "string option"
  cwd :: "string option"
  summary :: "string option"
  msg_tool_calls :: "tool_call list"
  msg_tool_results :: "tool_result list"

text \<open>
  \<open>parse_file\<close> is an asynchronous generator: what the loop of sync sees of it is a
  finite sequence of yielded pairs (message, byte offset), which an exception of the
  read may cut short.
\<close>

datatype parse_event = Yield parsed_message int | Throw

text \<open>
  The file system and the parser, as parameters of a run: the modification time of a
  file (\<open>Bun.file(file_path).lastModified\<close>), the events of
  \<open>parse_file(file_path, start_offset)\<close>, and \<open>relative(PROJECTS_DIR, file_path)\<close>.
\<close>

record fs_env =
  lastModified :: "string \<Rightarrow> int"
  parse_file :: "string \<Rightarrow> int \<Rightarrow> parse_event list"
  relative :: "string \<Rightarrow> string"

record SyncResult =
  files_scanned :: nat
  files_processed :: nat
  messages_added :: nat
  sessions_added :: nat
  tool_calls_added :: nat
  tool_results_added :: nat

text \<open>What the loops of sync update: the store, \<open>seen_sessions\<close> and \<open>result\<close>.\<close>

record run_state =
  db :: database
  seen_sessions :: "string set"
  result :: SyncResult

subsection \<open>extract\_project\_path\<close>

text \<open>The argument is \<open>relative(PROJECTS_DIR, file_path)\<close>; \<open>split('/')[0]\<close> is what precedes the first slash.\<close>

definition extract_project_path :: "string \<Rightarrow> string" where
  "extract_project_path rel =
     (let project_dir = takeWhile (\<lambda>c. c \<noteq> CHR ''/'') rel
      in case project_dir of
           c # rest \<Rightarrow> if c = CHR ''-''
                       then map (\<lambda>d. if d = CHR ''-'' then CHR ''/'' else d) rest
                       else project_dir
         | [] \<Rightarrow> project_dir)"

subsection \<open>The body of the loop over the records of a file\<close>

text \<open>"Ensure session exists": only for a session id not yet seen in this run.\<close>

definition ensure_session :: "string \<Rightarrow> parsed_message \<Rightarrow> run_state \<Rightarrow> run_state" where
  "ensure_session project_path message st =
     (if session_id message \<notin> seen_sessions st
      then st\<lparr>db := upsert_session
                       \<lparr>arg_id = session_id message, arg_project_path = project_path,
                        arg_git_branch = git_branch message, arg_cwd = cwd message,
                        arg_timestamp = timestamp message, arg_summary = summary message\<rparr>
                       (db st),
              seen_sessions := insert (session_id message) (seen_sessions st),
              result := (result st)\<lparr>sessions_added := sessions_added (result st) + 1\<rparr>\<rparr>
      else st)"

text \<open>
  \<open>message.type === 'summary' && message.summary\<close>: a summary that is defined and not
  the empty string.
\<close>

definition is_summary_message :: "parsed_message \<Rightarrow> bool" where
  "is_summary_message message =
     (msg_type message = ''summary'' \<and>
      (case summary message of None \<Rightarrow> False | Some s \<Rightarrow> s \<noteq> []))"

definition update_summary :: "string \<Rightarrow> parsed_message \<Rightarrow> run_state \<Rightarrow> run_state" where
  "update_summary project_path message st =
     (if is_summary_message message
      then st\<lparr>db := upsert_session
                       \<lparr>arg_id = session_id message, arg_project_path = project_path,
                        arg_git_branch = None, arg_cwd = None,
                        arg_timestamp = timestamp message, arg_summary = summary message\<rparr>
                       (db st)\<rparr>
      else st)"

definition add_tool_call :: "parsed_message \<Rightarrow> run_state \<Rightarrow> tool_call \<Rightarrow> run_state" where
  "add_tool_call message st tc =
     st\<lparr>db := insert_tool_call
                  \<lparr>tc_id = call_id tc, tc_message_uuid = uuid message,
                   tc_session_id = session_id message, tc_tool_name = tool_name tc,
                   tc_tool_input = tool_input tc, tc_timestamp = timestamp message\<rparr>
                  (db st),
        result := (result st)\<lparr>tool_calls_added := tool_calls_added (result st) + 1\<rparr>\<rparr>"

definition add_tool_result :: "parsed_message \<Rightarrow> run_state \<Rightarrow> tool_result \<Rightarrow> run_state" where
  "add_tool_result message st tr =
     st\<lparr>db := insert_tool_result
                  \<lparr>tr_tool_call_id = tool_call_id tr, tr_message_uuid = uuid message,
                   tr_session_id = session_id message, tr_content = content tr,
                   tr_is_error = is_error tr, tr_timestamp = timestamp message\<rparr>
                  (db st),
        result := (result st)\<lparr>tool_results_added := tool_results_added (result st) + 1\<rparr>\<rparr>"

text \<open>
  One record: the session, the summary, the message, its tool calls, its tool results.
  A failing statement ends the run with the state it was reached in.
\<close>

definition apply_record :: "string \<Rightarrow> parsed_message \<Rightarrow> run_state \<Rightarrow> (db_error \<times> run_state) + run_state" where
  "apply_record project_path message st =
     (let st1 = update_summary project_path message (ensure_session project_path message st)
      in case insert_message message (db st1) of
           Inl e \<Rightarrow> Inl (e, st1)
         | Inr d \<Rightarrow>
             Inr (foldl (add_tool_result message)
                        (foldl (add_tool_call message) (st1\<lparr>db := d\<rparr>) (msg_tool_calls message))
                        (msg_tool_results message)))"

text \<open>
  The loop over the events of \<open>parse_file\<close>, with its two local variables
  \<open>last_byte_offset\<close> and \<open>file_messages_added\<close>.
\<close>

fun apply_events :: "string \<Rightarrow> parse_event list \<Rightarrow> run_state \<times> int \<times> nat \<Rightarrow>
    (db_error \<times> run_state) + (run_state \<times> int \<times> nat)" where
  "apply_events project_path [] acc = Inr acc"
| "apply_events project_path (Throw # rest) (st, last_byte_offset, file_messages_added) =
     Inl (ReadFailure, st)"
| "apply_events project_path (Yield message byte_offset # rest)
       (st, last_byte_offset, file_messages_added) =
     (case apply_record project_path message st of
        Inl e \<Rightarrow> Inl e
      | Inr st' \<Rightarrow> apply_events project_path rest (st', byte_offset, file_messages_added + 1))"

subsection \<open>The body of the loop over the files\<close>

text \<open>"Skip if file hasn't changed".\<close>

definition unchanged :: "fs_env \<Rightarrow> string \<Rightarrow> database \<Rightarrow> bool" where
  "unchanged env fp d =
     (case get_sync_state fp d of
        None \<Rightarrow> False
      | Some c \<Rightarrow> lastModified env fp \<le> ss_last_modified c)"

definition start_offset :: "string \<Rightarrow> database \<Rightarrow> int" where
  "start_offset fp d = (case get_sync_state fp d of None \<Rightarrow> 0 | Some c \<Rightarrow> ss_last_byte_offset c)"

definition count_file :: "nat \<Rightarrow> SyncResult \<Rightarrow> SyncResult" where
  "count_file file_messages_added r =
     (if 0 < file_messages_added
      then r\<lparr>files_processed := files_processed r + 1,
             messages_added := messages_added r + file_messages_added\<rparr>
      else r)"

text \<open>The loop over the records that \<open>parse_file\<close> yields from the resume point.\<close>

definition apply_file :: "fs_env \<Rightarrow> string \<Rightarrow> run_state \<Rightarrow>
    (db_error \<times> run_state) + (run_state \<times> int \<times> nat)" where
  "apply_file env fp st =
     apply_events (extract_project_path (relative env fp))
       (parse_file env fp (start_offset fp (db st)))
       (st, start_offset fp (db st), 0)"

definition process_file :: "fs_env \<Rightarrow> string \<Rightarrow> run_state \<Rightarrow> (db_error \<times> run_state) + run_state" where
  "process_file env fp st =
     (if unchanged env fp (db st) then Inr st
      else case apply_file env fp st of
             Inl e \<Rightarrow> Inl e
           | Inr (st', last_byte_offset, file_messages_added) \<Rightarrow>
               Inr (st'\<lparr>db := set_sync_state fp (lastModified env fp) last_byte_offset (db st'),
                        result := count_file file_messages_added (result st')\<rparr>))"

fun sync_files :: "fs_env \<Rightarrow> string list \<Rightarrow> run_state \<Rightarrow> (db_error \<times> run_state) + run_state" where
  "sync_files env [] st = Inr st"
| "sync_files env (fp # files) st =
     (case process_file env fp st of
        Inl e \<Rightarrow> Inl e
      | Inr st' \<Rightarrow> sync_files env files st')"

subsection \<open>sync\<close>

text \<open>
  sync reads \<open>stats.tool_calls\<close>. The object that \<open>get_stats\<close> returns has no
  property of that name, and reading a property that an object does not have gives
  \<open>undefined\<close>, here \<open>None\<close>.
\<close>

definition stats_tool_calls :: "stats \<Rightarrow> nat option" where
  "stats_tool_calls s = None"

text \<open>
  "Auto-migration: if messages exist but no tool\_calls, reset sync state":
  \<open>stats.messages > 0 && stats.tool_calls === 0\<close>. The strict equality holds of the
  number 0 only.
\<close>

definition needs_migration :: "stats \<Rightarrow> bool" where
  "needs_migration s = (0 < stat_messages s \<and> stats_tool_calls s = Some 0)"

definition migration_check :: "stats \<Rightarrow> database \<Rightarrow> database" where
  "migration_check s d = (if needs_migration s then reset_sync_state d else d)"

definition empty_result :: SyncResult where
  "empty_result =
     \<lparr>files_scanned = 0, files_processed = 0, messages_added = 0, sessions_added = 0,
      tool_calls_added = 0, tool_results_added = 0\<rparr>"

text \<open>
  A run over the files that the scan of the projects directory found. A failure returns
  the error with the connection as the failure left it; nothing in sync catches it.
\<close>

definition sync :: "fs_env \<Rightarrow> string list \<Rightarrow> database \<Rightarrow> (db_error \<times> database) + (SyncResult \<times> database)" where
  "sync env files d =
     (case get_stats d of
        Inl e \<Rightarrow> Inl (e, d)
      | Inr s \<Rightarrow>
     (let d1 = disable_foreign_keys (migration_check s d)
      in case begin_transaction d1 of
           Inl e \<Rightarrow> Inl (e, d1)
         | Inr d2 \<Rightarrow>
             (case sync_files env files
                     \<lparr>db = d2, seen_sessions = {},
                      result = empty_result\<lparr>files_scanned := length files\<rparr>\<rparr> of
                Inl (e, st) \<Rightarrow> Inl (e, db st)
              | Inr st \<Rightarrow>
                  (case commit (db st) of
                     Inl e \<Rightarrow> Inl (e, db st)
                   | Inr d3 \<Rightarrow> Inr (result st, enable_foreign_keys d3)))))"

subsection \<open>The parser's contract\<close>



section \<open>Predicates of the properties\<close>

text \<open>The stored last timestamp of session \<open>k\<close> is at least \<open>ts\<close>.\<close>

definition session_reaches :: "string \<Rightarrow> int \<Rightarrow> database \<Rightarrow> bool" where
  "session_reaches k ts d =
     (case get_session k d of None \<Rightarrow> False | Some r \<Rightarrow> ts \<le> s_last_timestamp r)"

text \<open>The identifiers that the store holds.\<close>

definition stored_session_ids :: "database \<Rightarrow> string set" where
  "stored_session_ids d = s_id ` set (sessions (current d))"

definition stored_uuids :: "database \<Rightarrow> string set" where
  "stored_uuids d = m_uuid ` set (messages (current d))"

definition stored_tool_call_ids :: "database \<Rightarrow> string set" where
  "stored_tool_call_ids d = tc_id ` set (tool_calls (current d))"

definition stored_tool_result_ids :: "database \<Rightarrow> string set" where
  "stored_tool_result_ids d = tr_tool_call_id ` set (tool_results (current d))"

text \<open>Every identifier that \<open>d\<close> holds, \<open>d'\<close> holds.\<close>

definition store_grows :: "database \<Rightarrow> database \<Rightarrow> bool" where
  "store_grows d d' =
     (stored_session_ids d \<subseteq> stored_session_ids d' \<and>
      stored_uuids d \<subseteq> stored_uuids d' \<and>
      stored_tool_call_ids d \<subseteq> stored_tool_call_ids d' \<and>
      stored_tool_result_ids d \<subseteq> stored_tool_result_ids d')"

text \<open>
  A record is in the store: its session, its message, each of its tool calls and each
  of its tool results.
\<close>

definition record_applied :: "parsed_message \<Rightarrow> database \<Rightarrow> bool" where
  "record_applied message d =
     (session_id message \<in> stored_session_ids d \<and>
      uuid message \<in> stored_uuids d \<and>
      list_all (\<lambda>tc. call_id tc \<in> stored_tool_call_ids d) (msg_tool_calls message) \<and>
      list_all (\<lambda>tr. tool_call_id tr \<in> stored_tool_result_ids d) (msg_tool_results message))"

fun event_applied :: "database \<Rightarrow> parse_event \<Rightarrow> bool" where
  "event_applied d (Yield message byte_offset) = record_applied message d"
| "event_applied d Throw = False"

text \<open>The offset yielded last, or the offset to begin with when nothing is yielded.\<close>

fun last_offset :: "int \<Rightarrow> parse_event list \<Rightarrow> int" where
  "last_offset start [] = start"
| "last_offset start (Yield message byte_offset # rest) = last_offset byte_offset rest"
| "last_offset start (Throw # rest) = last_offset start rest"

section \<open>A small store and a small run, for evaluation\<close>

definition empty_tables :: tables where
  "empty_tables =
     \<lparr>sessions = [], messages = [], tool_calls = [], tool_results = [], sync_state = []\<rparr>"

definition example_session :: session_row where
  "example_session =
     \<lparr>s_id = ''s1'', s_project_path = ''home/user/alpha'', s_git_branch = Some ''main'',
      s_cwd = Some ''/home/user/alpha'', s_first_timestamp = 100, s_last_timestamp = 200,
      s_summary = Some ''first summary''\<rparr>"

definition example_message_row :: message_row where
  "example_message_row =
     \<lparr>m_uuid = ''m1'', m_session_id = ''s1'', m_parent_uuid = None, m_type = ''human'',
      m_model = None, m_content_text = Some ''Hello world'', m_content_json = None,
      m_thinking = None, m_timestamp = 100, m_input_tokens = 0, m_output_tokens = 0,
      m_cache_read_tokens = 0, m_cache_creation_tokens = 0\<rparr>"

definition example_tool_call_row :: tool_call_row where
  "example_tool_call_row =
     \<lparr>tc_id = ''tc-1'', tc_message_uuid = ''m1'', tc_session_id = ''s1'',
      tc_tool_name = ''Read'', tc_tool_input = ''{}'', tc_timestamp = 100\<rparr>"

definition example_tool_result_row :: tool_result_row where
  "example_tool_result_row =
     \<lparr>tr_tool_call_id = ''tc-1'', tr_message_uuid = ''m1'', tr_session_id = ''s1'',
      tr_content = ''ok'', tr_is_error = False, tr_timestamp = 100\<rparr>"

definition example_db :: database where
  "example_db =
     \<lparr>current = \<lparr>sessions = [example_session], messages = [example_message_row],
                  tool_calls = [example_tool_call_row],
                  tool_results = [example_tool_result_row], sync_state = []\<rparr>,
      snapshot = None, foreign_keys = True\<rparr>"

text \<open>A conflicting upsert: an earlier timestamp, no summary, other values everywhere.\<close>

definition example_arg :: session_arg where
  "example_arg =
     \<lparr>arg_id = ''s1'', arg_project_path = ''elsewhere'', arg_git_branch = None,
      arg_cwd = None, arg_timestamp = 150, arg_summary = None\<rparr>"

text \<open>A second insert under the uuid of the stored message, every other field different.\<close>

definition example_duplicate :: message where
  "example_duplicate =
     \<lparr>uuid = ''m1'', session_id = ''no such session'', parent_uuid = Some ''m0'',
      msg_type = ''assistant'', model = Some ''a model'', content_text = Some ''Other text'',
      content_json = None, thinking = Some ''thought'', timestamp = 999,
      input_tokens = Some 5, output_tokens = Some 6, cache_read_tokens = None,
      cache_creation_tokens = None\<rparr>"

text \<open>
  One transcript of two records, the second with a tool call; read from the start or
  from the end of the first record.
\<close>

definition example_file :: string where
  "example_file = ''/p/-home-user-alpha/s1.jsonl''"

definition first_message :: parsed_message where
  "first_message =
     \<lparr>uuid = ''m1'', session_id = ''s1'', parent_uuid = None, msg_type = ''human'',
      model = None, content_text = Some ''Hello world'', content_json = None,
      thinking = None, timestamp = 100, input_tokens = None, output_tokens = None,
      cache_read_tokens = None, cache_creation_tokens = None,
      git_branch = Some ''main'', cwd = Some ''/home/user/alpha'', summary = None,
      msg_tool_calls = [], msg_tool_results = []\<rparr>"

definition second_message :: parsed_message where
  "second_message =
     \<lparr>uuid = ''m2'', session_id = ''s1'', parent_uuid = Some ''m1'', msg_type = ''assistant'',
      model = Some ''a model'', content_text = Some ''Reading'', content_json = None,
      thinking = None, timestamp = 200, input_tokens = Some 10, output_tokens = Some 20,
      cache_read_tokens = None, cache_creation_tokens = None,
      git_branch = Some ''main'', cwd = Some ''/home/user/alpha'', summary = None,
      msg_tool_calls = [\<lparr>call_id = ''tc-1'', tool_name = ''Read'', tool_input = ''{}''\<rparr>],
      msg_tool_results = []\<rparr>"

definition example_env :: fs_env where
  "example_env =
     \<lparr>lastModified = (\<lambda>fp. 20),
      parse_file = (\<lambda>fp off. if fp = example_file \<and> off = 0
                               then [Yield first_message 40, Yield second_message 90]
                             else if fp = example_file \<and> off = 40
                               then [Yield second_message 90]
                             else []),
      relative = drop 3\<rparr>"


definition fresh_db :: database where
  "fresh_db = \<lparr>current = empty_tables, snapshot = None, foreign_keys = True\<rparr>"


text \<open>
  The store of the context-window tests of db.test.ts: five messages of one session at
  consecutive seconds, and a message of another session at the time of the middle one.
\<close>

definition ctx_message :: "string \<Rightarrow> string \<Rightarrow> string \<Rightarrow> int \<Rightarrow> message_row" where
  "ctx_message u sid ty ts =
     \<lparr>m_uuid = u, m_session_id = sid, m_parent_uuid = None, m_type = ty, m_model = None,
      m_content_text = Some ''Message'', m_content_json = None, m_thinking = None,
      m_timestamp = ts, m_input_tokens = 0, m_output_tokens = 0, m_cache_read_tokens = 0,
      m_cache_creation_tokens = 0\<rparr>"

definition window_db :: database where
  "window_db =
     \<lparr>current = empty_tables\<lparr>messages :=
         [ctx_message ''ctx-msg-0'' ''session-ctx'' ''human'' 1000,
          ctx_message ''ctx-msg-1'' ''session-ctx'' ''assistant'' 2000,
          ctx_message ''ctx-msg-2'' ''session-ctx'' ''human'' 3000,
          ctx_message ''ctx-msg-3'' ''session-ctx'' ''assistant'' 4000,
          ctx_message ''ctx-msg-4'' ''session-ctx'' ''human'' 5000,
          ctx_message ''other-msg'' ''session-other'' ''human'' 3000]\<rparr>,
      snapshot = None, foreign_keys = True\<rparr>"

text \<open>
  A store filled before tool calls were extracted whose cursor is up to date: both
  records of the transcript are stored, the tool call of the second is not.
\<close>

definition stale_db :: database where
  "stale_db =
     \<lparr>current = \<lparr>sessions = [example_session],
                  messages = [example_message_row,
                              ctx_message ''m2'' ''s1'' ''assistant'' 200],
                  tool_calls = [], tool_results = [],
                  sync_state = [\<lparr>ss_file_path = example_file, ss_last_modified = 20,
                                 ss_last_byte_offset = 90\<rparr>]\<rparr>,
      snapshot = None, foreign_keys = True\<rparr>"


definition start_state :: "database \<Rightarrow> run_state" where
  "start_state d = \<lparr>db = d, seen_sessions = {}, result = empty_result\<rparr>"

section \<open>Session upserts\<close>

lemma find_upsert_rows_conflict:
  "find (\<lambda>r. s_id r = arg_id a) rows = Some r \<Longrightarrow>
   find (\<lambda>r. s_id r = arg_id a) (map (\<lambda>r. if s_id r = arg_id a then on_conflict_update a r else r) rows)
     = Some (on_conflict_update a r)"
  by (induction rows) (auto simp: on_conflict_update_def)

lemma get_session_upsert_conflict:
  assumes "get_session (arg_id a) d = Some r"
  shows "get_session (arg_id a) (upsert_session a d) = Some (on_conflict_update a r)"
proof -
  from assms have f: "find (\<lambda>r. s_id r = arg_id a) (sessions (current d)) = Some r"
    by (simp add: get_session_def)
  then have "\<exists>r \<in> set (sessions (current d)). s_id r = arg_id a"
    by (auto simp: find_Some_iff)
  with f show ?thesis
    by (simp add: get_session_def upsert_session_def upsert_rows_def find_upsert_rows_conflict)
qed


lemma example_lookup: "get_session (arg_id example_arg) example_db = Some example_session"
  by (simp add: get_session_def example_db_def example_arg_def example_session_def)

text \<open>
  C1. An upsert onto a stored session id leaves, as the stored last timestamp, the
  maximum of the stored and the incoming one; the stored summary becomes the incoming
  one when that is not null and stays what it was when it is null.
\<close>

theorem upsert_session_merge:
  assumes "get_session (arg_id a) d = Some r"
  shows "map_option s_last_timestamp (get_session (arg_id a) (upsert_session a d))
           = Some (max (s_last_timestamp r) (arg_timestamp a)) \<and>
         map_option s_summary (get_session (arg_id a) (upsert_session a d))
           = Some (case arg_summary a of None \<Rightarrow> s_summary r | Some v \<Rightarrow> Some v)"
  using get_session_upsert_conflict [OF assms]
  by (simp add: on_conflict_update_def coalesce_def)

theorem upsert_session_merge_witness:
  "get_session (arg_id example_arg) example_db = Some example_session \<and>
   map_option s_last_timestamp
       (get_session (arg_id example_arg) (upsert_session example_arg example_db))
     = Some 200 \<and>
   map_option s_summary
       (get_session (arg_id example_arg) (upsert_session example_arg example_db))
     = Some (Some ''first summary'')"
  using upsert_session_merge [OF example_lookup] example_lookup
  by (simp add: example_arg_def example_session_def)

text \<open>
  C10. An upsert onto a stored session id leaves the stored project path, git branch,
  working directory and first timestamp as they were, whatever the call supplies.
\<close>

theorem upsert_session_frame:
  assumes "get_session (arg_id a) d = Some r"
  shows "map_option s_project_path (get_session (arg_id a) (upsert_session a d))
           = Some (s_project_path r) \<and>
         map_option s_git_branch (get_session (arg_id a) (upsert_session a d))
           = Some (s_git_branch r) \<and>
         map_option s_cwd (get_session (arg_id a) (upsert_session a d)) = Some (s_cwd r) \<and>
         map_option s_first_timestamp (get_session (arg_id a) (upsert_session a d))
           = Some (s_first_timestamp r)"
  using get_session_upsert_conflict [OF assms]
  by (simp add: on_conflict_update_def)

theorem upsert_session_frame_witness:
  "get_session (arg_id example_arg) example_db = Some example_session \<and>
   map_option s_project_path
       (get_session (arg_id example_arg) (upsert_session example_arg example_db))
     = Some ''home/user/alpha'' \<and>
   map_option s_git_branch
       (get_session (arg_id example_arg) (upsert_session example_arg example_db))
     = Some (Some ''main'') \<and>
   map_option s_cwd
       (get_session (arg_id example_arg) (upsert_session example_arg example_db))
     = Some (Some ''/home/user/alpha'') \<and>
   map_option s_first_timestamp
       (get_session (arg_id example_arg) (upsert_session example_arg example_db))
     = Some 100"
  using upsert_session_frame [OF example_lookup] example_lookup
  by (simp add: example_session_def)

section \<open>Inserts under a stored identifier\<close>

text \<open>
  C2. Inserting a message whose uuid is stored returns without an error and leaves the
  whole store as it was; so do the inserts of a tool call and of a tool result under a
  stored identifier.
\<close>

theorem insert_duplicate_noop:
  "(uuid msg \<in> m_uuid ` set (messages (current d)) \<longrightarrow> insert_message msg d = Inr d) \<and>
   (tc_id c \<in> tc_id ` set (tool_calls (current d)) \<longrightarrow> insert_tool_call c d = d) \<and>
   (tr_tool_call_id t \<in> tr_tool_call_id ` set (tool_results (current d)) \<longrightarrow>
      insert_tool_result t d = d)"
  by (auto simp: insert_message_def insert_tool_call_def insert_tool_result_def)

theorem insert_duplicate_noop_witness:
  "uuid example_duplicate \<in> m_uuid ` set (messages (current example_db)) \<and>
   insert_message example_duplicate example_db = Inr example_db \<and>
   tc_id (example_tool_call_row\<lparr>tc_tool_name := ''Bash''\<rparr>)
     \<in> tc_id ` set (tool_calls (current example_db)) \<and>
   insert_tool_call (example_tool_call_row\<lparr>tc_tool_name := ''Bash''\<rparr>) example_db = example_db \<and>
   tr_tool_call_id (example_tool_result_row\<lparr>tr_is_error := True\<rparr>)
     \<in> tr_tool_call_id ` set (tool_results (current example_db)) \<and>
   insert_tool_result (example_tool_result_row\<lparr>tr_is_error := True\<rparr>) example_db = example_db"
proof -
  have m: "uuid example_duplicate \<in> m_uuid ` set (messages (current example_db))"
    by (simp add: example_duplicate_def example_db_def example_message_row_def)
  have c: "tc_id (example_tool_call_row\<lparr>tc_tool_name := ''Bash''\<rparr>)
             \<in> tc_id ` set (tool_calls (current example_db))"
    by (simp add: example_db_def)
  have t: "tr_tool_call_id (example_tool_result_row\<lparr>tr_is_error := True\<rparr>)
             \<in> tr_tool_call_id ` set (tool_results (current example_db))"
    by (simp add: example_db_def)
  from m c t
    insert_duplicate_noop [of example_duplicate example_db
      "example_tool_call_row\<lparr>tc_tool_name := ''Bash''\<rparr>"
      "example_tool_result_row\<lparr>tr_is_error := True\<rparr>"]
  show ?thesis by blast
qed

section \<open>What each statement leaves alone\<close>

lemma upsert_session_others [simp]:
  "snapshot (upsert_session a d) = snapshot d"
  "foreign_keys (upsert_session a d) = foreign_keys d"
  "messages (current (upsert_session a d)) = messages (current d)"
  "tool_calls (current (upsert_session a d)) = tool_calls (current d)"
  "tool_results (current (upsert_session a d)) = tool_results (current d)"
  "sync_state (current (upsert_session a d)) = sync_state (current d)"
  by (simp_all add: upsert_session_def)

lemma insert_tool_call_others [simp]:
  "snapshot (insert_tool_call c d) = snapshot d"
  "foreign_keys (insert_tool_call c d) = foreign_keys d"
  "sessions (current (insert_tool_call c d)) = sessions (current d)"
  "messages (current (insert_tool_call c d)) = messages (current d)"
  "tool_results (current (insert_tool_call c d)) = tool_results (current d)"
  "sync_state (current (insert_tool_call c d)) = sync_state (current d)"
  by (simp_all add: insert_tool_call_def)

lemma insert_tool_result_others [simp]:
  "snapshot (insert_tool_result t d) = snapshot d"
  "foreign_keys (insert_tool_result t d) = foreign_keys d"
  "sessions (current (insert_tool_result t d)) = sessions (current d)"
  "messages (current (insert_tool_result t d)) = messages (current d)"
  "tool_calls (current (insert_tool_result t d)) = tool_calls (current d)"
  "sync_state (current (insert_tool_result t d)) = sync_state (current d)"
  by (simp_all add: insert_tool_result_def)

lemma set_sync_state_others [simp]:
  "snapshot (set_sync_state fp lm off d) = snapshot d"
  "foreign_keys (set_sync_state fp lm off d) = foreign_keys d"
  "sessions (current (set_sync_state fp lm off d)) = sessions (current d)"
  "messages (current (set_sync_state fp lm off d)) = messages (current d)"
  "tool_calls (current (set_sync_state fp lm off d)) = tool_calls (current d)"
  "tool_results (current (set_sync_state fp lm off d)) = tool_results (current d)"
  by (simp_all add: set_sync_state_def)

lemma insert_message_others:
  assumes "insert_message msg d = Inr d'"
  shows "snapshot d' = snapshot d" "foreign_keys d' = foreign_keys d"
    "sessions (current d') = sessions (current d)"
    "tool_calls (current d') = tool_calls (current d)"
    "tool_results (current d') = tool_results (current d)"
    "sync_state (current d') = sync_state (current d)"
  using assms by (auto simp: insert_message_def split: if_splits)


lemma ensure_session_others [simp]:
  "snapshot (db (ensure_session pp m st)) = snapshot (db st)"
  "foreign_keys (db (ensure_session pp m st)) = foreign_keys (db st)"
  "messages (current (db (ensure_session pp m st))) = messages (current (db st))"
  "tool_calls (current (db (ensure_session pp m st))) = tool_calls (current (db st))"
  "tool_results (current (db (ensure_session pp m st))) = tool_results (current (db st))"
  "sync_state (current (db (ensure_session pp m st))) = sync_state (current (db st))"
  by (simp_all add: ensure_session_def)

lemma update_summary_others [simp]:
  "snapshot (db (update_summary pp m st)) = snapshot (db st)"
  "foreign_keys (db (update_summary pp m st)) = foreign_keys (db st)"
  "messages (current (db (update_summary pp m st))) = messages (current (db st))"
  "tool_calls (current (db (update_summary pp m st))) = tool_calls (current (db st))"
  "tool_results (current (db (update_summary pp m st))) = tool_results (current (db st))"
  "sync_state (current (db (update_summary pp m st))) = sync_state (current (db st))"
  "seen_sessions (update_summary pp m st) = seen_sessions st"
  by (simp_all add: update_summary_def)

lemma add_tool_calls_others [simp]:
  "snapshot (db (foldl (add_tool_call m) st tcs)) = snapshot (db st)"
  "foreign_keys (db (foldl (add_tool_call m) st tcs)) = foreign_keys (db st)"
  "sessions (current (db (foldl (add_tool_call m) st tcs))) = sessions (current (db st))"
  "messages (current (db (foldl (add_tool_call m) st tcs))) = messages (current (db st))"
  "tool_results (current (db (foldl (add_tool_call m) st tcs))) = tool_results (current (db st))"
  "sync_state (current (db (foldl (add_tool_call m) st tcs))) = sync_state (current (db st))"
  "seen_sessions (foldl (add_tool_call m) st tcs) = seen_sessions st"
  by (induction tcs arbitrary: st; simp add: add_tool_call_def)+

lemma add_tool_results_others [simp]:
  "snapshot (db (foldl (add_tool_result m) st trs)) = snapshot (db st)"
  "foreign_keys (db (foldl (add_tool_result m) st trs)) = foreign_keys (db st)"
  "sessions (current (db (foldl (add_tool_result m) st trs))) = sessions (current (db st))"
  "messages (current (db (foldl (add_tool_result m) st trs))) = messages (current (db st))"
  "tool_calls (current (db (foldl (add_tool_result m) st trs))) = tool_calls (current (db st))"
  "sync_state (current (db (foldl (add_tool_result m) st trs))) = sync_state (current (db st))"
  "seen_sessions (foldl (add_tool_result m) st trs) = seen_sessions st"
  by (induction trs arbitrary: st; simp add: add_tool_result_def)+

section \<open>The connection through a run\<close>










section \<open>The migration check\<close>



text \<open>
  C3. The run at a store that holds messages and no tool call, with an up-to-date
  cursor for a transcript whose second record carries a tool call: the statistics have no
  count of tool calls to compare with 0, the check does not ask for a migration, the
  cursor stays, the file is skipped, and the run returns the store as it was.
\<close>

theorem migration_not_reached:
  "\<not> isl (get_stats stale_db) \<and>
   stat_messages (projr (get_stats stale_db)) = 2 \<and>
   tool_calls (current stale_db) = [] \<and>
   \<not> needs_migration (projr (get_stats stale_db)) \<and>
   migration_check (projr (get_stats stale_db)) stale_db = stale_db \<and>
   sync_state (current stale_db) \<noteq> [] \<and>
   msg_tool_calls second_message \<noteq> [] \<and>
   parse_file example_env example_file 0 = [Yield first_message 40, Yield second_message 90] \<and>
   sync example_env [example_file] stale_db = Inr (empty_result\<lparr>files_scanned := 1\<rparr>, stale_db)"
  by code_simp

section \<open>Failure of a run\<close>









section \<open>The cursor of a file\<close>

subsection \<open>What a record adds to the store\<close>

lemma ids_upsert_session:
  "stored_session_ids (upsert_session a d) = insert (arg_id a) (stored_session_ids d)"
proof (cases "\<exists>r \<in> set (sessions (current d)). s_id r = arg_id a")
  case True
  then obtain r where "r \<in> set (sessions (current d))" "s_id r = arg_id a" by blast
  then have i: "arg_id a \<in> s_id ` set (sessions (current d))" by (metis imageI)
  have "s_id ` set (map (\<lambda>r. if s_id r = arg_id a then on_conflict_update a r else r) rows)
          = s_id ` set rows" for rows
    by (induction rows) (auto simp: on_conflict_update_def)
  with True i show ?thesis
    by (simp add: stored_session_ids_def upsert_session_def upsert_rows_def insert_absorb)
next
  case False
  then show ?thesis
    by (simp add: stored_session_ids_def upsert_session_def upsert_rows_def excluded_row_def)
qed

lemma ids_insert_message:
  assumes "insert_message msg d = Inr d'"
  shows "stored_uuids d' = insert (uuid msg) (stored_uuids d)"
proof (cases "\<exists>r \<in> set (messages (current d)). m_uuid r = uuid msg")
  case True
  then obtain r where "r \<in> set (messages (current d))" "m_uuid r = uuid msg" by blast
  then have "uuid msg \<in> m_uuid ` set (messages (current d))" by (metis imageI)
  with True assms show ?thesis
    by (simp add: stored_uuids_def insert_message_def insert_absorb)
next
  case False
  with assms show ?thesis
    by (auto simp: stored_uuids_def insert_message_def message_values_def split: if_splits)
qed

lemma ids_insert_tool_call:
  "stored_tool_call_ids (insert_tool_call c d) = insert (tc_id c) (stored_tool_call_ids d)"
proof (cases "\<exists>r \<in> set (tool_calls (current d)). tc_id r = tc_id c")
  case True
  then obtain r where "r \<in> set (tool_calls (current d))" "tc_id r = tc_id c" by blast
  then have "tc_id c \<in> tc_id ` set (tool_calls (current d))" by (metis imageI)
  with True show ?thesis
    by (simp add: stored_tool_call_ids_def insert_tool_call_def insert_absorb)
next
  case False
  then show ?thesis by (simp add: stored_tool_call_ids_def insert_tool_call_def)
qed

lemma ids_insert_tool_result:
  "stored_tool_result_ids (insert_tool_result t d)
     = insert (tr_tool_call_id t) (stored_tool_result_ids d)"
proof (cases "\<exists>r \<in> set (tool_results (current d)). tr_tool_call_id r = tr_tool_call_id t")
  case True
  then obtain r where "r \<in> set (tool_results (current d))" "tr_tool_call_id r = tr_tool_call_id t"
    by blast
  then have "tr_tool_call_id t \<in> tr_tool_call_id ` set (tool_results (current d))"
    by (metis imageI)
  with True show ?thesis
    by (simp add: stored_tool_result_ids_def insert_tool_result_def insert_absorb)
next
  case False
  then show ?thesis by (simp add: stored_tool_result_ids_def insert_tool_result_def)
qed

lemma ids_add_tool_calls:
  "stored_tool_call_ids (db (foldl (add_tool_call m) st tcs))
     = stored_tool_call_ids (db st) \<union> call_id ` set tcs"
  by (induction tcs arbitrary: st) (auto simp: add_tool_call_def ids_insert_tool_call)

lemma ids_add_tool_results:
  "stored_tool_result_ids (db (foldl (add_tool_result m) st trs))
     = stored_tool_result_ids (db st) \<union> tool_call_id ` set trs"
  by (induction trs arbitrary: st) (auto simp: add_tool_result_def ids_insert_tool_result)

lemma ids_ensure_session:
  "stored_session_ids (db st) \<subseteq> stored_session_ids (db (ensure_session pp m st))"
  "session_id m \<notin> seen_sessions st \<Longrightarrow>
     session_id m \<in> stored_session_ids (db (ensure_session pp m st))"
  "seen_sessions (ensure_session pp m st) = insert (session_id m) (seen_sessions st)"
  by (auto simp: ensure_session_def ids_upsert_session)

lemma ids_update_summary:
  "stored_session_ids (db st) \<subseteq> stored_session_ids (db (update_summary pp m st))"
  by (auto simp: update_summary_def ids_upsert_session)

lemma store_grows_refl: "store_grows d d"
  by (simp add: store_grows_def)

lemma store_grows_trans: "store_grows d d' \<Longrightarrow> store_grows d' d'' \<Longrightarrow> store_grows d d''"
  by (auto simp: store_grows_def)

lemma record_applied_grows:
  "record_applied m d \<Longrightarrow> store_grows d d' \<Longrightarrow> record_applied m d'"
  by (auto simp: record_applied_def store_grows_def list_all_iff)


lemma apply_record_applied:
  assumes "apply_record pp m st = Inr st'"
    and "seen_sessions st \<subseteq> stored_session_ids (db st)"
  shows "record_applied m (db st')" and "store_grows (db st) (db st')"
    and "seen_sessions st' \<subseteq> stored_session_ids (db st')"
proof -
  let ?st1 = "update_summary pp m (ensure_session pp m st)"
  from assms(1) obtain d where d: "insert_message m (db ?st1) = Inr d"
    and e: "st' = foldl (add_tool_result m)
                    (foldl (add_tool_call m) (?st1\<lparr>db := d\<rparr>) (msg_tool_calls m))
                    (msg_tool_results m)"
    by (auto simp: apply_record_def Let_def split: sum.splits)
  note o = insert_message_others [OF d]
  have s': "stored_session_ids (db st') = stored_session_ids (db ?st1)"
    unfolding e using o(3) by (simp add: stored_session_ids_def)
  have u': "stored_uuids (db st') = insert (uuid m) (stored_uuids (db st))"
    unfolding e using ids_insert_message [OF d] by (simp add: stored_uuids_def)
  have c': "stored_tool_call_ids (db st')
              = stored_tool_call_ids (db st) \<union> call_id ` set (msg_tool_calls m)"
  proof -
    have "stored_tool_call_ids (db st')
            = stored_tool_call_ids (db (foldl (add_tool_call m) (?st1\<lparr>db := d\<rparr>) (msg_tool_calls m)))"
      unfolding e by (simp add: stored_tool_call_ids_def)
    also have "\<dots> = stored_tool_call_ids d \<union> call_id ` set (msg_tool_calls m)"
      by (simp add: ids_add_tool_calls)
    also have "stored_tool_call_ids d = stored_tool_call_ids (db st)"
      using o(4) by (simp add: stored_tool_call_ids_def)
    finally show ?thesis .
  qed
  have r': "stored_tool_result_ids (db st')
              = stored_tool_result_ids (db st) \<union> tool_call_id ` set (msg_tool_results m)"
  proof -
    have "stored_tool_result_ids (db st')
            = stored_tool_result_ids
                (db (foldl (add_tool_call m) (?st1\<lparr>db := d\<rparr>) (msg_tool_calls m)))
              \<union> tool_call_id ` set (msg_tool_results m)"
      unfolding e by (simp add: ids_add_tool_results)
    also have "stored_tool_result_ids
                (db (foldl (add_tool_call m) (?st1\<lparr>db := d\<rparr>) (msg_tool_calls m)))
               = stored_tool_result_ids d"
      by (simp add: stored_tool_result_ids_def)
    also have "stored_tool_result_ids d = stored_tool_result_ids (db st)"
      using o(5) by (simp add: stored_tool_result_ids_def)
    finally show ?thesis .
  qed
  have g: "stored_session_ids (db st) \<subseteq> stored_session_ids (db ?st1)"
    using ids_ensure_session(1) [of st pp m] ids_update_summary [of "ensure_session pp m st" pp m]
    by blast
  have here: "session_id m \<in> stored_session_ids (db ?st1)"
  proof (cases "session_id m \<in> seen_sessions st")
    case True
    with assms(2) g show ?thesis by blast
  next
    case False
    from ids_ensure_session(2) [OF this, of pp]
      ids_update_summary [of "ensure_session pp m st" pp m]
    show ?thesis by blast
  qed
  have seen: "seen_sessions st' = insert (session_id m) (seen_sessions st)"
    unfolding e by (simp add: ids_ensure_session(3))
  show "record_applied m (db st')"
    using here s' u' c' r' by (auto simp: record_applied_def list_all_iff)
  show "store_grows (db st) (db st')"
    using g s' u' c' r' by (auto simp: store_grows_def)
  show "seen_sessions st' \<subseteq> stored_session_ids (db st')"
    using seen here s' g assms(2) by auto
qed

lemma apply_events_applied:
  "apply_events pp evs (st, off, n) = Inr (st', off', n') \<Longrightarrow>
   seen_sessions st \<subseteq> stored_session_ids (db st) \<Longrightarrow>
   list_all (event_applied (db st')) evs \<and> store_grows (db st) (db st') \<and>
   seen_sessions st' \<subseteq> stored_session_ids (db st') \<and>
   off' = last_offset off evs \<and> n' = n + length evs"
proof (induction pp evs "(st, off, n)" arbitrary: st off n rule: apply_events.induct)
  case (1 project_path)
  then show ?case by (simp add: store_grows_refl)
next
  case (2 project_path rest st last_byte_offset file_messages_added)
  then show ?case by simp
next
  case (3 project_path message byte_offset rest st last_byte_offset file_messages_added)
  from 3(2) obtain st1 where a: "apply_record project_path message st = Inr st1"
    and b: "apply_events project_path rest (st1, byte_offset, file_messages_added + 1)
              = Inr (st', off', n')"
    by (auto split: sum.splits)
  note r = apply_record_applied [OF a 3(3)]
  from 3(1) [OF a b r(3)]
  have ih: "list_all (event_applied (db st')) rest" "store_grows (db st1) (db st')"
    "seen_sessions st' \<subseteq> stored_session_ids (db st')"
    "off' = last_offset byte_offset rest" "n' = file_messages_added + 1 + length rest"
    by simp_all
  from record_applied_grows [OF r(1) ih(2)] store_grows_trans [OF r(2) ih(2)] ih
  show ?case by simp
qed



subsection \<open>The pass over a file\<close>





text \<open>The seen sessions stay stored from file to file, so from the start of a run on.\<close>

lemma process_file_seen:
  assumes "process_file env fp st = Inr st'"
    and "seen_sessions st \<subseteq> stored_session_ids (db st)"
  shows "seen_sessions st' \<subseteq> stored_session_ids (db st')"
proof (cases "unchanged env fp (db st)")
  case True
  with assms show ?thesis by (simp add: process_file_def)
next
  case False
  with assms(1) obtain mid off n where a: "apply_file env fp st = Inr (mid, off, n)"
    and b: "st' = mid\<lparr>db := set_sync_state fp (lastModified env fp) off (db mid),
                      result := count_file n (result mid)\<rparr>"
    by (auto simp: process_file_def split: sum.splits prod.splits)
  from apply_events_applied [OF a [unfolded apply_file_def] assms(2)]
  have "seen_sessions mid \<subseteq> stored_session_ids (db mid)" by simp
  then show ?thesis unfolding b by (simp add: stored_session_ids_def)
qed

lemma sync_files_seen:
  "sync_files env files st = Inr st' \<Longrightarrow>
   seen_sessions st \<subseteq> stored_session_ids (db st) \<Longrightarrow>
   seen_sessions st' \<subseteq> stored_session_ids (db st')"
proof (induction files arbitrary: st)
  case Nil
  then show ?case by simp
next
  case (Cons fp files)
  from Cons.prems(1) obtain st1 where a: "process_file env fp st = Inr st1"
    and b: "sync_files env files st1 = Inr st'"
    by (auto split: sum.splits)
  from Cons.IH [OF b process_file_seen [OF a Cons.prems(2)]] show ?case .
qed





section \<open>The session of a record\<close>

lemma find_append_fresh:
  "\<not> (\<exists>r \<in> set rows. P r) \<Longrightarrow> find P (rows @ [x]) = (if P x then Some x else None)"
  by (induction rows) auto

lemma find_map_other:
  "k \<noteq> k' \<Longrightarrow>
   find (\<lambda>r. s_id r = k) (map (\<lambda>r. if s_id r = k' then on_conflict_update a r else r) rows)
     = find (\<lambda>r. s_id r = k) rows"
  by (induction rows) (auto simp: on_conflict_update_def)

lemma find_append_other:
  "\<not> P x \<Longrightarrow> find P (rows @ [x]) = find P rows"
  by (induction rows) auto

lemma upsert_session_reaches: "session_reaches (arg_id a) (arg_timestamp a) (upsert_session a d)"
proof (cases "get_session (arg_id a) d")
  case None
  then have "\<not> (\<exists>r \<in> set (sessions (current d)). s_id r = arg_id a)"
    by (simp add: get_session_def find_None_iff)
  then show ?thesis
    by (simp add: session_reaches_def get_session_def upsert_session_def upsert_rows_def
        find_append_fresh excluded_row_def)
next
  case (Some r)
  from get_session_upsert_conflict [OF this] show ?thesis
    by (simp add: session_reaches_def on_conflict_update_def)
qed

lemma upsert_session_keeps_reaches:
  assumes "session_reaches k ts d"
  shows "session_reaches k ts (upsert_session a d)"
proof (cases "arg_id a = k")
  case True
  from assms obtain r where r: "get_session k d = Some r" "ts \<le> s_last_timestamp r"
    by (auto simp: session_reaches_def split: option.splits)
  with True get_session_upsert_conflict [of a d r] show ?thesis
    by (simp add: session_reaches_def on_conflict_update_def)
next
  case False
  then have "get_session k (upsert_session a d) = get_session k d"
    by (auto simp: get_session_def upsert_session_def upsert_rows_def find_map_other
        find_append_other excluded_row_def)
  with assms show ?thesis by (simp add: session_reaches_def)
qed

lemma reaches_cong:
  "sessions (current d') = sessions (current d) \<Longrightarrow> session_reaches k ts d' = session_reaches k ts d"
  by (simp add: session_reaches_def get_session_def)


lemma ensure_session_reaches:
  "session_id m \<notin> seen_sessions st \<Longrightarrow>
   session_reaches (session_id m) (timestamp m) (db (ensure_session pp m st))"
  using upsert_session_reaches
    [of "\<lparr>arg_id = session_id m, arg_project_path = pp, arg_git_branch = git_branch m,
          arg_cwd = cwd m, arg_timestamp = timestamp m, arg_summary = summary m\<rparr>" "db st"]
  by (simp add: ensure_session_def)

lemma update_summary_reaches:
  "is_summary_message m \<Longrightarrow> session_reaches (session_id m) (timestamp m) (db (update_summary pp m st))"
  using upsert_session_reaches
    [of "\<lparr>arg_id = session_id m, arg_project_path = pp, arg_git_branch = None,
          arg_cwd = None, arg_timestamp = timestamp m, arg_summary = summary m\<rparr>" "db st"]
  by (simp add: update_summary_def)

lemma update_summary_keeps_reaches:
  "session_reaches k ts (db st) \<Longrightarrow> session_reaches k ts (db (update_summary pp m st))"
  by (simp add: update_summary_def upsert_session_keeps_reaches)

lemma apply_record_sessions:
  assumes "apply_record pp m st = Inr st'"
  shows "sessions (current (db st'))
           = sessions (current (db (update_summary pp m (ensure_session pp m st))))"
  using assms
  by (auto simp: apply_record_def Let_def split: sum.splits dest: insert_message_others)

text \<open>
  C6, amended. A record whose session id was not seen in the run yet, or that is a
  summary record with a non-empty summary, leaves the stored last timestamp of its
  session at least its own timestamp; any other record leaves the sessions as they were.
\<close>

theorem session_touched_on_first_or_summary:
  assumes "apply_record pp m st = Inr st'"
  shows "(session_id m \<notin> seen_sessions st \<or> is_summary_message m \<longrightarrow>
            session_reaches (session_id m) (timestamp m) (db st')) \<and>
         (session_id m \<in> seen_sessions st \<and> \<not> is_summary_message m \<longrightarrow>
            sessions (current (db st')) = sessions (current (db st)))"
proof -
  let ?st1 = "update_summary pp m (ensure_session pp m st)"
  note s = apply_record_sessions [OF assms]
  have "session_reaches (session_id m) (timestamp m) (db ?st1)"
    if "session_id m \<notin> seen_sessions st \<or> is_summary_message m"
    using that ensure_session_reaches update_summary_reaches update_summary_keeps_reaches
    by blast
  moreover have "sessions (current (db ?st1)) = sessions (current (db st))"
    if "session_id m \<in> seen_sessions st \<and> \<not> is_summary_message m"
    using that by (simp add: update_summary_def ensure_session_def)
  ultimately show ?thesis using s reaches_cong [OF s] by auto
qed

theorem session_touched_on_first_or_summary_witness:
  "\<not> isl (apply_record ''home/user/alpha'' first_message (start_state fresh_db)) \<and>
   session_id first_message \<notin> seen_sessions (start_state fresh_db) \<and>
   session_reaches ''s1'' 100
     (db (projr (apply_record ''home/user/alpha'' first_message (start_state fresh_db)))) \<and>
   \<not> isl (apply_record ''home/user/alpha'' second_message
            (projr (apply_record ''home/user/alpha'' first_message (start_state fresh_db)))) \<and>
   session_id second_message
     \<in> seen_sessions (projr (apply_record ''home/user/alpha'' first_message (start_state fresh_db))) \<and>
   \<not> is_summary_message second_message \<and>
   sessions (current (db (projr (apply_record ''home/user/alpha'' second_message
       (projr (apply_record ''home/user/alpha'' first_message (start_state fresh_db)))))))
     = sessions (current (db (projr (apply_record ''home/user/alpha'' first_message
         (start_state fresh_db)))))"
proof -
  let ?st0 = "start_state fresh_db"
  let ?r1 = "apply_record ''home/user/alpha'' first_message ?st0"
  have a: "\<not> isl ?r1" by code_simp
  then obtain st1 where r1: "?r1 = Inr st1" by (cases ?r1) auto
  have n: "session_id first_message \<notin> seen_sessions ?st0" by code_simp
  have i: "session_id first_message = ''s1''" "timestamp first_message = 100"
    by (simp_all add: first_message_def)
  let ?r2 = "apply_record ''home/user/alpha'' second_message (projr ?r1)"
  have b: "\<not> isl ?r2" by code_simp
  then obtain st2 where r2: "apply_record ''home/user/alpha'' second_message st1 = Inr st2"
    using r1 by (cases ?r2) auto
  have s: "session_id second_message \<in> seen_sessions (projr ?r1)" by code_simp
  have m: "\<not> is_summary_message second_message" by code_simp
  from session_touched_on_first_or_summary [OF r1] n i
  have "session_reaches ''s1'' 100 (db st1)" by simp
  moreover from session_touched_on_first_or_summary [OF r2] s m r1
  have "sessions (current (db st2)) = sessions (current (db st1))" by simp
  ultimately show ?thesis using a n b s m r1 r2 by simp
qed

text \<open>
  C6, as stated, fails: the second record of the session is later than the first, and
  after the run the stored last timestamp is still that of the first.
\<close>

theorem later_message_counterexample:
  "parse_file example_env example_file 0 = [Yield first_message 40, Yield second_message 90] \<and>
   session_id second_message = session_id first_message \<and>
   \<not> isl (sync example_env [example_file] fresh_db) \<and>
   \<not> session_reaches (session_id second_message) (timestamp second_message)
       (snd (projr (sync example_env [example_file] fresh_db)))"
  by code_simp

section \<open>The context window\<close>

lemma rev_take_rev: "rev (take n (rev xs)) = drop (length xs - n) xs"
  by (simp add: take_rev)

lemma sorted_key_take: "sorted (map f xs) \<Longrightarrow> sorted (map f (take n xs))"
  by (simp add: take_map [symmetric] sorted_wrt_take del: take_map)

lemma sorted_key_drop: "sorted (map f xs) \<Longrightarrow> sorted (map f (drop n xs))"
  by (simp add: drop_map [symmetric] sorted_wrt_drop del: drop_map)

text \<open>
  C7. Each side of the window holds the smaller of N and the number of messages of the
  session on that side of the anchor, so at most N, and fewer when fewer exist; each
  side is in ascending order of timestamp; every message of the before side is a stored
  message of the session strictly before the anchor, every message of the after side one
  strictly after it; for a session id that no message has, both sides are empty. The
  function is total: it returns for every argument.
\<close>

theorem get_messages_around_window:
  "length (before (get_messages_around sid anchor n d))
     = min n (length (filter (\<lambda>r. m_timestamp r < anchor) (session_messages sid d))) \<and>
   length (after (get_messages_around sid anchor n d))
     = min n (length (filter (\<lambda>r. anchor < m_timestamp r) (session_messages sid d))) \<and>
   sorted (map m_timestamp (before (get_messages_around sid anchor n d))) \<and>
   sorted (map m_timestamp (after (get_messages_around sid anchor n d))) \<and>
   (\<forall>r \<in> set (before (get_messages_around sid anchor n d)).
      r \<in> set (messages (current d)) \<and> m_session_id r = sid \<and> m_timestamp r < anchor) \<and>
   (\<forall>r \<in> set (after (get_messages_around sid anchor n d)).
      r \<in> set (messages (current d)) \<and> m_session_id r = sid \<and> anchor < m_timestamp r) \<and>
   (sid \<notin> m_session_id ` set (messages (current d)) \<longrightarrow>
      get_messages_around sid anchor n d = \<lparr>before = [], after = []\<rparr>)"
proof -
  let ?b = "sort_key m_timestamp (filter (\<lambda>r. m_timestamp r < anchor) (session_messages sid d))"
  let ?a = "sort_key m_timestamp (filter (\<lambda>r. anchor < m_timestamp r) (session_messages sid d))"
  have b: "before (get_messages_around sid anchor n d) = drop (length ?b - n) ?b"
    by (simp add: get_messages_around_def rev_take_rev)
  have a: "after (get_messages_around sid anchor n d) = take n ?a"
    by (simp add: get_messages_around_def)
  have lb: "length (drop (length ?b - n) ?b)
              = min n (length (filter (\<lambda>r. m_timestamp r < anchor) (session_messages sid d)))"
    by simp
  have la: "length (take n ?a)
              = min n (length (filter (\<lambda>r. anchor < m_timestamp r) (session_messages sid d)))"
    by simp
  have sb: "sorted (map m_timestamp (drop (length ?b - n) ?b))"
    by (rule sorted_key_drop) simp
  have sa: "sorted (map m_timestamp (take n ?a))"
    by (rule sorted_key_take) simp
  have mb: "r \<in> set (messages (current d)) \<and> m_session_id r = sid \<and> m_timestamp r < anchor"
    if "r \<in> set (drop (length ?b - n) ?b)" for r
    using in_set_dropD [OF that] by (simp add: session_messages_def)
  have ma: "r \<in> set (messages (current d)) \<and> m_session_id r = sid \<and> anchor < m_timestamp r"
    if "r \<in> set (take n ?a)" for r
    using in_set_takeD [OF that] by (simp add: session_messages_def)
  have e: "get_messages_around sid anchor n d = \<lparr>before = [], after = []\<rparr>"
    if "sid \<notin> m_session_id ` set (messages (current d))"
  proof -
    from that have "session_messages sid d = []"
      by (auto simp: session_messages_def filter_empty_conv)
    then show ?thesis by (simp add: get_messages_around_def)
  qed
  show ?thesis
    unfolding b a using lb la sb sa mb ma e by blast
qed


theorem get_messages_around_window_witness:
  "map m_uuid (before (get_messages_around ''session-ctx'' 3000 2 window_db))
     = [''ctx-msg-0'', ''ctx-msg-1''] \<and>
   map m_uuid (after (get_messages_around ''session-ctx'' 3000 2 window_db))
     = [''ctx-msg-3'', ''ctx-msg-4''] \<and>
   length (before (get_messages_around ''session-ctx'' 3000 2 window_db)) = 2 \<and>
   length (after (get_messages_around ''session-ctx'' 3000 2 window_db)) = 2 \<and>
   sorted (map m_timestamp (before (get_messages_around ''session-ctx'' 3000 2 window_db))) \<and>
   sorted (map m_timestamp (after (get_messages_around ''session-ctx'' 3000 2 window_db))) \<and>
   ''nonexistent'' \<notin> m_session_id ` set (messages (current window_db)) \<and>
   get_messages_around ''nonexistent'' 3000 5 window_db = \<lparr>before = [], after = []\<rparr>"
proof -
  have u: "map m_uuid (before (get_messages_around ''session-ctx'' 3000 2 window_db))
             = [''ctx-msg-0'', ''ctx-msg-1'']"
    by code_simp
  have v: "map m_uuid (after (get_messages_around ''session-ctx'' 3000 2 window_db))
             = [''ctx-msg-3'', ''ctx-msg-4'']"
    by code_simp
  have c: "length (filter (\<lambda>r. m_timestamp r < 3000) (session_messages ''session-ctx'' window_db)) = 2"
    by code_simp
  have c': "length (filter (\<lambda>r. 3000 < m_timestamp r) (session_messages ''session-ctx'' window_db)) = 2"
    by code_simp
  have n: "''nonexistent'' \<notin> m_session_id ` set (messages (current window_db))"
    by code_simp
  note w = get_messages_around_window [of "''session-ctx''" 3000 2 window_db]
  note x = get_messages_around_window [of "''nonexistent''" 3000 5 window_db]
  from w c have l: "length (before (get_messages_around ''session-ctx'' 3000 2 window_db)) = 2"
    by (simp only: min.idem)
  from w c' have l': "length (after (get_messages_around ''session-ctx'' 3000 2 window_db)) = 2"
    by (simp only: min.idem)
  from w have s: "sorted (map m_timestamp (before (get_messages_around ''session-ctx'' 3000 2 window_db)))"
    by (elim conjE)
  from w have s': "sorted (map m_timestamp (after (get_messages_around ''session-ctx'' 3000 2 window_db)))"
    by (elim conjE)
  from x n have e: "get_messages_around ''nonexistent'' 3000 5 window_db = \<lparr>before = [], after = []\<rparr>"
    by (elim conjE) (erule mp)
  from u v l l' s s' n e show ?thesis by (intro conjI)
qed

end
